theory Spec2Isabelle
  imports Main
begin

section \<open>Values of the host language\<close>

text \<open>
  The indexer works on binary strings: every character is one byte, which is what
  \<^verbatim>\<open>new Buffer(s, 'binary').length\<close> counts. A string is therefore a \<^typ>\<open>string\<close>
  (a list of 8-bit characters) and its byte length is \<^const>\<open>length\<close>.

  A property that may be missing from an object is an \<^typ>\<open>'a option\<close>; \<open>None\<close> is
  \<^verbatim>\<open>undefined\<close>. A string is truthy when it is present and not empty.
\<close>

definition CRLF :: string where
  "CRLF = [CHR 0x0D, CHR 0x0A]"

definition truthy :: "string option \<Rightarrow> bool" where
  "truthy v = (case v of None \<Rightarrow> False | Some s \<Rightarrow> s \<noteq> [])"

definition orEmpty :: "string option \<Rightarrow> string" where
  \<comment> \<open>\<^verbatim>\<open>v || ''\<close>\<close>
  "orEmpty v = (case v of None \<Rightarrow> [] | Some s \<Rightarrow> s)"

definition toStr :: "string option \<Rightarrow> string" where
  \<comment> \<open>string concatenation with a possibly missing operand: \<^verbatim>\<open>'--' + undefined\<close>\<close>
  "toStr v = (case v of None \<Rightarrow> ''undefined'' | Some s \<Rightarrow> s)"

fun join :: "string list \<Rightarrow> string \<Rightarrow> string" where
  "join [] sep = []"
| "join [x] sep = x"
| "join (x # y # ys) sep = x @ sep @ join (y # ys) sep"

text \<open>
  Numbers: the only arithmetic of the indexer is the addition of byte counts, which are
  integers, and of the \<open>size\<close> property of a node. Adding a missing \<open>size\<close> gives
  \<^verbatim>\<open>NaN\<close>, which every later addition keeps.
\<close>

datatype jsnum = Num int | NaN

fun add_js :: "jsnum \<Rightarrow> jsnum \<Rightarrow> jsnum" where
  "add_js (Num a) (Num b) = Num (a + b)"
| "add_js _ _ = NaN"

definition toNumber :: "int option \<Rightarrow> jsnum" where
  "toNumber v = (case v of None \<Rightarrow> NaN | Some n \<Rightarrow> Num n)"

text \<open>
  Reading a property of \<^verbatim>\<open>undefined\<close> throws a \<open>TypeError\<close>. \<open>FetchFailed\<close> is the error
  event of the remote fetch. \<open>LimiterUnspecified\<close> marks the one place where the length
  limiter is given no number.
\<close>

datatype error = TypeError | FetchFailed | LimiterUnspecified

subsection \<open>Characters and regular expressions\<close>

definition isSpace :: "char \<Rightarrow> bool" where
  \<comment> \<open>\<^verbatim>\<open>\s\<close> and the characters \<^verbatim>\<open>trim()\<close> strips, among the 256 byte values:
      TAB, LF, VT, FF, CR, space and the no-break space\<close>
  "isSpace c = (c \<in> set [CHR 0x09, CHR 0x0A, CHR 0x0B, CHR 0x0C, CHR 0x0D, CHR 0x20, CHR 0xA0])"

definition toLowerChar :: "char \<Rightarrow> char" where
  \<comment> \<open>\<^verbatim>\<open>toLowerCase\<close> on one byte: A-Z, and the Latin-1 capitals 0xC0-0xDE without 0xD7\<close>
  "toLowerChar c =
     (let n = (of_char c :: nat)
      in if (65 \<le> n \<and> n \<le> 90) \<or> (192 \<le> n \<and> n \<le> 222 \<and> n \<noteq> 215)
         then char_of (n + 32) else c)"

definition toLowerCase :: "string \<Rightarrow> string" where
  "toLowerCase s = map toLowerChar s"

definition toUpperAscii :: "char \<Rightarrow> char" where
  \<comment> \<open>the canonical form a case-insensitive regular expression compares; against a
      pattern of ASCII characters only the letters a-z matter\<close>
  "toUpperAscii c =
     (let n = (of_char c :: nat)
      in if 97 \<le> n \<and> n \<le> 122 then char_of (n - 32) else c)"

definition trim :: "string \<Rightarrow> string" where
  "trim s = rev (dropWhile isSpace (rev (dropWhile isSpace s)))"

definition startsWithCI :: "string \<Rightarrow> string \<Rightarrow> bool" where
  \<comment> \<open>\<^verbatim>\<open>/^pat/i.test(s)\<close> for a pattern \<open>pat\<close> of literal characters, given in upper case\<close>
  "startsWithCI pat s = (map toUpperAscii (take (length pat) s) = pat)"

definition isYes :: "string option \<Rightarrow> bool" where
  \<comment> \<open>\<^verbatim>\<open>/^\s*YES\s*$/i.test(v)\<close>; a missing value is tested as the text
      \<^verbatim>\<open>undefined\<close>\<close>
  "isYes v =
     (let s = dropWhile isSpace (toStr v)
      in map toUpperAscii (take 3 s) = ''YES'' \<and> dropWhile isSpace (drop 3 s) = [])"

definition stripAngle :: "string \<Rightarrow> string" where
  \<comment> \<open>\<^verbatim>\<open>.replace(/^<|>$/g, '')\<close>\<close>
  "stripAngle s =
     (let s1 = (case s of [] \<Rightarrow> [] | c # cs \<Rightarrow> if c = CHR ''<'' then cs else s)
      in if s1 \<noteq> [] \<and> last s1 = CHR ''>'' then butlast s1 else s1)"

section \<open>The MIME tree\<close>

text \<open>
  A node of the parsed tree, with the properties the indexer reads. Each may be missing.
  \<open>parsedHeader\<close> maps lower-cased header names to values; the indexer reads the two
  keys \<^verbatim>\<open>x-attachment-stream-url\<close> and \<^verbatim>\<open>x-attachment-stream-encoded\<close>.
\<close>

datatype node = Node
  (header: "string list option")
  (parsedHeader: "(string \<times> string) list option")
  (body: "string option")
  (boundary: "string option")
  (childNodes: "node list option")
  (message: "node option")
  (size_js: "int option")

definition streamUrl :: "(string \<times> string) list \<Rightarrow> string option" where
  "streamUrl ph = map_of ph ''x-attachment-stream-url''"

definition streamEncoded :: "(string \<times> string) list \<Rightarrow> string option" where
  "streamEncoded ph = map_of ph ''x-attachment-stream-encoded''"

section \<open>Header filter\<close>

text \<open>
  \<open>header\<close> is a sequence of lines or missing, so the branch of \<open>filterHeaders\<close> for a
  value that is not an array is never taken. The pattern of the marker lines is
  \<^verbatim>\<open>/^X-Attachment-Stream/i\<close>.
\<close>

definition filterHeaders :: "string list option \<Rightarrow> string list" where
  "filterHeaders headers =
     filter (\<lambda>h. \<not> startsWithCI ''X-ATTACHMENT-STREAM'' h)
       (case headers of None \<Rightarrow> [] | Some hs \<Rightarrow> hs)"

definition headerBlock :: "node \<Rightarrow> string" where
  \<comment> \<open>\<^verbatim>\<open>filterHeaders(node.header).join('\r\n') + '\r\n'\<close>\<close>
  "headerBlock n = join (filterHeaders (header n)) CRLF @ CRLF"

section \<open>Size estimator\<close>

text \<open>
  The closure variables of \<open>getSize\<close>: \<open>first\<close> and \<open>root\<close> are shared with the rebuilder's
  walk, \<open>size_acc\<close> is the running \<open>size\<close>.
\<close>

record walkstate =
  first :: bool
  root :: bool

record sizestate = walkstate +
  size_acc :: jsnum

definition append_size :: "string option \<Rightarrow> bool \<Rightarrow> sizestate \<Rightarrow> sizestate" where
  \<comment> \<open>\<open>append(data, force)\<close>; \<open>data\<close> is a string, \<open>false\<close> or missing at every call\<close>
  "append_size data force s =
     (if truthy data \<or> force
      then s\<lparr>size_acc := add_js (size_acc s)
                 (Num (int (length ((if first s then [] else CRLF) @ orEmpty data)))),
             first := False\<rparr>
      else s)"

definition finalize_size :: "string option \<Rightarrow> sizestate \<Rightarrow> sizestate" where
  "finalize_size bnd s =
     append_size None False
       (if truthy bnd then append_size (Some (''--'' @ toStr bnd @ ''--'' @ CRLF)) False s
        else s)"

definition header_size :: "bool \<Rightarrow> node \<Rightarrow> sizestate \<Rightarrow> sizestate" where
  \<comment> \<open>the header block unless suppressed at the outermost node, then \<^verbatim>\<open>root = false\<close>\<close>
  "header_size textOnly n s =
     (if \<not> textOnly \<or> \<not> root s then append_size (Some (headerBlock n)) False s
      else s)\<lparr>root := False\<rparr>"

definition content_size :: "int option \<Rightarrow> sizestate \<Rightarrow> sizestate" where
  \<comment> \<open>\<^verbatim>\<open>append(false, true); size += node.size;\<close>\<close>
  "content_size sz s =
     (let a = append_size None True s
      in a\<lparr>size_acc := add_js (size_acc a) (toNumber sz)\<rparr>)"

definition hasStreamUrl :: "(string \<times> string) list option \<Rightarrow> bool" where
  \<comment> \<open>the truth value of \<^verbatim>\<open>node.parsedHeader['x-attachment-stream-url']\<close>, where
      \<open>parsedHeader\<close> is there\<close>
  "hasStreamUrl ph = (case ph of None \<Rightarrow> False | Some p \<Rightarrow> truthy (streamUrl p))"

text \<open>
  \<open>walk\<close> and \<open>processChildNodes\<close> of \<open>getSize\<close>. The continuation \<open>next\<close> of the source is
  the rest of the list of children. The first test reads \<open>parsedHeader\<close> only when the
  body is falsy, the second only when there is no boundary.
\<close>

fun walk_size :: "bool \<Rightarrow> node \<Rightarrow> sizestate \<Rightarrow> error + sizestate"
  and processChildNodes_size ::
    "bool \<Rightarrow> string option \<Rightarrow> node list \<Rightarrow> sizestate \<Rightarrow> error + sizestate"
where
  "walk_size textOnly (Node hdr ph bd bnd cs msg sz) s =
     (let s2 = header_size textOnly (Node hdr ph bd bnd cs msg sz) s
      in if \<not> truthy bd \<and> ph = None then Inl TypeError
         else
           let s3 = (if truthy bd \<or> hasStreamUrl ph then content_size sz s2 else s2)
           in if truthy bnd
              then (case cs of
                      Some l \<Rightarrow> processChildNodes_size textOnly bnd l
                                  (append_size (Some (''--'' @ toStr bnd)) False s3)
                    | None \<Rightarrow> Inr (finalize_size bnd
                                  (append_size (Some (''--'' @ toStr bnd)) False s3)))
              else if ph = None then Inl TypeError
              else if hasStreamUrl ph then Inr (finalize_size bnd s3)
              else (case cs of
                      Some l \<Rightarrow> processChildNodes_size textOnly bnd l s3
                    | None \<Rightarrow> Inr (finalize_size bnd s3)))"
| "processChildNodes_size textOnly bnd [] s = Inr (finalize_size bnd s)"
| "processChildNodes_size textOnly bnd (c # rest) s =
     (case walk_size textOnly c s of
        Inl e \<Rightarrow> Inl e
      | Inr s' \<Rightarrow>
          processChildNodes_size textOnly bnd rest
            (if rest \<noteq> [] then append_size (Some (''--'' @ toStr bnd)) False s' else s'))"

definition getSize :: "node \<Rightarrow> bool \<Rightarrow> error + jsnum" where
  "getSize mimeTree textOnly =
     (case walk_size textOnly mimeTree \<lparr>first = True, root = True, size_acc = Num 0\<rparr> of
        Inl e \<Rightarrow> Inl e
      | Inr s \<Rightarrow> Inr (size_acc s))"

section \<open>Streaming rebuilder\<close>

text \<open>
  The collaborators of \<open>rebuild\<close> that are libraries: \<open>fetch\<close> gives the bytes behind a URL,
  or \<open>None\<close> when the fetch stream emits an error; \<open>Encoder\<close> is the base64 encoder of
  \<^verbatim>\<open>libbase64\<close>. Both are parameters of the model.
\<close>

record collaborators =
  fetch :: "string \<Rightarrow> string option"
  Encoder :: "string \<Rightarrow> string"

text \<open>
  Modelled from the spec: \<^verbatim>\<open>../length-limiter\<close> is a module of this repository that is not
  among the sources. The spec says of it: it wraps a byte stream, passes through at most N
  bytes and signals completion at N bytes or at source exhaustion, whichever comes first.
\<close>

definition LengthLimiter :: "int \<Rightarrow> string \<Rightarrow> string" where
  "LengthLimiter n bytes = take (nat n) bytes"

text \<open>
  The closure variables of \<open>rebuild\<close>: \<open>res\<close> holds the bytes written to the output stream
  so far. The walk is asynchronous in the source (\<^verbatim>\<open>setImmediate\<close> between children, the
  pipe of the fetch stream); one rebuild owns its stream, so the bytes arrive in the order
  of the calls, which is the order of this sequential walk. When the fetch fails the
  source emits the error on \<open>res\<close> and never calls \<open>finalize\<close>: the walk stops there.
\<close>

record rebuildstate = walkstate +
  res :: string
  remainder :: string

definition append_res :: "string option \<Rightarrow> bool \<Rightarrow> rebuildstate \<Rightarrow> rebuildstate" where
  "append_res data force s =
     (if remainder s \<noteq> [] \<or> truthy data \<or> force
      then s\<lparr>res := res s @ (if first s then [] else CRLF) @ remainder s @ orEmpty data,
             first := False\<rparr>
      else s)\<lparr>remainder := []\<rparr>"

definition finalize_res :: "string option \<Rightarrow> rebuildstate \<Rightarrow> rebuildstate" where
  "finalize_res bnd s =
     append_res None False
       (if truthy bnd then append_res (Some (''--'' @ toStr bnd @ ''--'' @ CRLF)) False s
        else s)"

definition pipeline :: "collaborators \<Rightarrow> bool \<Rightarrow> int \<Rightarrow> string \<Rightarrow> string" where
  \<comment> \<open>\<^verbatim>\<open>fetchStream.pipe(b64encoder).pipe(limiter)\<close> or \<^verbatim>\<open>fetchStream.pipe(limiter)\<close>\<close>
  "pipeline ext encoded n fetched =
     (if \<not> encoded then LengthLimiter n (Encoder ext fetched)
      else LengthLimiter n fetched)"

definition header_res :: "bool \<Rightarrow> node \<Rightarrow> rebuildstate \<Rightarrow> rebuildstate" where
  \<comment> \<open>the header block unless suppressed at the outermost node, then \<^verbatim>\<open>root = false\<close> and
      \<^verbatim>\<open>remainder = node.body || ''\<close>\<close>
  "header_res textOnly n s =
     (if \<not> textOnly \<or> \<not> root s then append_res (Some (headerBlock n)) False s
      else s)\<lparr>root := False, remainder := orEmpty (body n)\<rparr>"

definition external_res ::
  "collaborators \<Rightarrow> (string \<times> string) list \<Rightarrow> int option \<Rightarrow> rebuildstate \<Rightarrow> error + rebuildstate"
where
  \<comment> \<open>the branch of a node with \<^verbatim>\<open>x-attachment-stream-url\<close>: the forced newline, then the
      fetched bytes through the encoder (unless already encoded) and the limiter\<close>
  "external_res ext p sz s =
     (let url = stripAngle (orEmpty (streamUrl p));
          encoded = isYes (streamEncoded p);
          s3 = append_res None True s
      in case sz of
           None \<Rightarrow> Inl LimiterUnspecified
         | Some k \<Rightarrow>
             (case fetch ext url of
                None \<Rightarrow> Inl FetchFailed
              | Some fetched \<Rightarrow> Inr (s3\<lparr>res := res s3 @ pipeline ext encoded k fetched\<rparr>)))"

text \<open>
  \<open>walk\<close> and \<open>processChildNodes\<close> of \<open>rebuild\<close>. After the limiter has ended the source
  calls \<open>finalize\<close>; a node of this branch has no boundary.
\<close>

fun walk_res :: "collaborators \<Rightarrow> bool \<Rightarrow> node \<Rightarrow> rebuildstate \<Rightarrow> error + rebuildstate"
  and processChildNodes_res ::
    "collaborators \<Rightarrow> bool \<Rightarrow> string option \<Rightarrow> node list \<Rightarrow> rebuildstate
       \<Rightarrow> error + rebuildstate"
where
  "walk_res ext textOnly (Node hdr ph bd bnd cs msg sz) s =
     (let s2 = header_res textOnly (Node hdr ph bd bnd cs msg sz) s
      in if truthy bnd
         then (case cs of
                 Some l \<Rightarrow> processChildNodes_res ext textOnly bnd l
                             (append_res (Some (''--'' @ toStr bnd)) False s2)
               | None \<Rightarrow> Inr (finalize_res bnd
                             (append_res (Some (''--'' @ toStr bnd)) False s2)))
         else (case ph of
                 None \<Rightarrow> Inl TypeError
               | Some p \<Rightarrow>
                   if truthy (streamUrl p)
                   then (case external_res ext p sz s2 of
                           Inl e \<Rightarrow> Inl e
                         | Inr s4 \<Rightarrow> Inr (finalize_res bnd s4))
                   else (case cs of
                           Some l \<Rightarrow> processChildNodes_res ext textOnly bnd l s2
                         | None \<Rightarrow> Inr (finalize_res bnd s2))))"
| "processChildNodes_res ext textOnly bnd [] s = Inr (finalize_res bnd s)"
| "processChildNodes_res ext textOnly bnd (c # rest) s =
     (case walk_res ext textOnly c s of
        Inl e \<Rightarrow> Inl e
      | Inr s' \<Rightarrow>
          processChildNodes_res ext textOnly bnd rest
            (if rest \<noteq> [] then append_res (Some (''--'' @ toStr bnd)) False s' else s'))"

text \<open>
  What a consumer sees of the output stream: the bytes and the end event, or the error
  event. \<open>rebuild\<close> computes \<open>expectedLength\<close> with \<open>getSize\<close> before it returns, so an
  exception of \<open>getSize\<close> is an exception of \<open>rebuild\<close>.
\<close>

datatype stream = Ended string | Errored error

datatype contents = Str string | Stream stream jsnum

definition rebuild_stream :: "collaborators \<Rightarrow> node \<Rightarrow> bool \<Rightarrow> stream" where
  "rebuild_stream ext mimeTree textOnly =
     (case walk_res ext textOnly mimeTree
             \<lparr>first = True, root = True, res = [], remainder = []\<rparr> of
        Inl e \<Rightarrow> Errored e
      | Inr s \<Rightarrow> Ended (res s))"

definition rebuild :: "collaborators \<Rightarrow> node \<Rightarrow> bool \<Rightarrow> error + contents" where
  "rebuild ext mimeTree textOnly =
     (case getSize mimeTree textOnly of
        Inl e \<Rightarrow> Inl e
      | Inr expectedLength \<Rightarrow> Inr (Stream (rebuild_stream ext mimeTree textOnly) expectedLength))"

section \<open>Content node resolver\<close>

fun split_on :: "char \<Rightarrow> string \<Rightarrow> string list" where
  "split_on d [] = [[]]"
| "split_on d (c # cs) =
     (if c = d then [] # split_on d cs
      else (case split_on d cs of
              [] \<Rightarrow> [[c]]
            | seg # segs \<Rightarrow> (c # seg) # segs))"

text \<open>
  \<open>Number\<close> is the conversion of the language from a string to a number, a parameter of
  the model: \<open>None\<close> stands for every value that is not an integer (\<^verbatim>\<open>NaN\<close>, a fraction,
  an infinity), none of which indexes an array. The loop of \<open>resolveContentNode\<close> ends at
  the first segment that is falsy, which for a string is the empty one.
\<close>

definition childAt :: "node \<Rightarrow> int \<Rightarrow> node option" where
  \<comment> \<open>\<^verbatim>\<open>contentNode.childNodes && contentNode.childNodes[pathNumber]\<close>\<close>
  "childAt contentNode pathNumber =
     (case childNodes contentNode of
        None \<Rightarrow> None
      | Some l \<Rightarrow> if 0 \<le> pathNumber \<and> pathNumber < int (length l)
                  then Some (l ! nat pathNumber) else None)"

definition followMessage :: "node \<Rightarrow> node" where
  \<comment> \<open>\<^verbatim>\<open>if (contentNode.message) { contentNode = contentNode.message; }\<close>\<close>
  "followMessage contentNode =
     (case message contentNode of Some m \<Rightarrow> m | None \<Rightarrow> contentNode)"

fun resolveLoop :: "(string \<Rightarrow> int option) \<Rightarrow> node \<Rightarrow> string list \<Rightarrow> node option" where
  "resolveLoop Number contentNode [] = Some contentNode"
| "resolveLoop Number contentNode (pathNumber # pathNumbers) =
     (if pathNumber = [] then Some contentNode
      else
        case Number pathNumber of
          None \<Rightarrow> None
        | Some k \<Rightarrow>
            (case childAt (followMessage contentNode) (k - 1) of
               None \<Rightarrow> None
             | Some child \<Rightarrow> resolveLoop Number child pathNumbers))"

definition resolveContentNode ::
  "(string \<Rightarrow> int option) \<Rightarrow> node \<Rightarrow> string option \<Rightarrow> node option" where
  "resolveContentNode Number mimeTree path =
     (let path' = (if childNodes mimeTree = None \<and> path = Some ''1'' then Some [] else path)
      in resolveLoop Number mimeTree (split_on (CHR ''.'') (orEmpty path')))"

section \<open>Content selector\<close>

record selector =
  path :: "string option"
  type :: string
  headers :: "string list option"

text \<open>
  The selector argument of \<open>getContents\<close> is an object, the name of a type, or missing.
\<close>

datatype selector_arg = Missing | Name string | Obj selector

definition toSelector :: "selector_arg \<Rightarrow> selector" where
  "toSelector a =
     (case a of
        Name t \<Rightarrow> \<lparr>path = None, type = t, headers = None\<rparr>
      | Missing \<Rightarrow> \<lparr>path = None, type = [], headers = None\<rparr>
      | Obj sel \<Rightarrow> sel)"

definition headerKey :: "string \<Rightarrow> string" where
  \<comment> \<open>\<^verbatim>\<open>line.split(':').shift().toLowerCase().trim()\<close>\<close>
  "headerKey line = trim (toLowerCase (takeWhile (\<lambda>c. c \<noteq> CHR '':'') line))"

definition blankLine :: string where
  \<comment> \<open>\<^verbatim>\<open>'\r\n\r\n'\<close>\<close>
  "blankLine = CRLF @ CRLF"

definition selectNode :: "(string \<Rightarrow> int option) \<Rightarrow> node \<Rightarrow> selector \<Rightarrow> node option" where
  \<comment> \<open>\<^verbatim>\<open>let node = mimeTree; if (selector.path) { node = this.resolveContentNode(...); }\<close>\<close>
  "selectNode Number mimeTree selector =
     (if truthy (path selector) then resolveContentNode Number mimeTree (path selector)
      else Some mimeTree)"

definition getContents ::
  "(string \<Rightarrow> int option) \<Rightarrow> collaborators \<Rightarrow> node \<Rightarrow> selector_arg \<Rightarrow> error + contents"
where
  "getContents Number ext mimeTree arg =
     (let selector = toSelector arg
      in case selectNode Number mimeTree selector of
        None \<Rightarrow> Inr (Str [])
      | Some node \<Rightarrow>
          if type selector = [] \<or> type selector = ''content''
          then (if \<not> truthy (path selector) then rebuild ext node False
                else rebuild ext node True)
          else if type selector = ''header''
          then (if \<not> truthy (path selector)
                then Inr (Str (join (filterHeaders (header node)) CRLF @ blankLine))
                else case message node of
                       Some m \<Rightarrow>
                         Inr (Str (join (case header m of None \<Rightarrow> [] | Some hs \<Rightarrow> hs) CRLF
                                   @ blankLine))
                     | None \<Rightarrow> Inr (Str []))
          else if type selector = ''header.fields''
          then (case headers selector of
                  None \<Rightarrow> Inr (Str blankLine)
                | Some hs \<Rightarrow>
                    if hs = [] then Inr (Str blankLine)
                    else Inr (Str (join (filter (\<lambda>line. headerKey line \<in> set hs)
                                           (filterHeaders (header node))) CRLF @ blankLine)))
          else if type selector = ''header.fields.not''
          then (case headers selector of
                  None \<Rightarrow> Inr (Str (join (filterHeaders (header node)) CRLF @ blankLine))
                | Some hs \<Rightarrow>
                    if hs = []
                    then Inr (Str (join (filterHeaders (header node)) CRLF @ blankLine))
                    else Inr (Str (join (filter (\<lambda>line. headerKey line \<notin> set hs)
                                           (filterHeaders (header node))) CRLF @ blankLine)))
          else if type selector = ''mime''
          then Inr (Str (join (filterHeaders (header node)) CRLF @ blankLine))
          else if type selector = ''text''
          then (if \<not> truthy (path selector) then rebuild ext node True
                else case message node of
                       Some m \<Rightarrow> rebuild ext m True
                     | None \<Rightarrow> Inr (Str []))
          else Inr (Str []))"

section \<open>Buffering adapter\<close>

text \<open>
  \<open>bodyQuery\<close> hands its callback either an error or a buffer; a string result becomes
  the buffer of its bytes.
\<close>

definition bodyQuery ::
  "(string \<Rightarrow> int option) \<Rightarrow> collaborators \<Rightarrow> node \<Rightarrow> selector_arg \<Rightarrow> error + string"
where
  "bodyQuery Number ext mimeTree selector =
     (case getContents Number ext mimeTree selector of
        Inl e \<Rightarrow> Inl e
      | Inr (Stream (Ended bytes) n) \<Rightarrow> Inr bytes
      | Inr (Stream (Errored e) n) \<Rightarrow> Inl e
      | Inr (Str data) \<Rightarrow> Inr data)"

section \<open>Concrete collaborators and trees\<close>

text \<open>
  \<open>Number_dec\<close> reads a string of decimal digits as its value, as the language does; it is
  used at such strings only. \<open>base64\<close> is the base64 encoding of a short input (no line
  is long enough to be wrapped).
\<close>

definition Number_dec :: "string \<Rightarrow> int option" where
  "Number_dec s =
     (if s \<noteq> [] \<and> list_all (\<lambda>c. 48 \<le> (of_char c :: nat) \<and> (of_char c :: nat) \<le> 57) s
      then Some (foldl (\<lambda>a c. 10 * a + (int (of_char c) - 48)) 0 s) else None)"

definition base64_alphabet :: string where
  "base64_alphabet = ''ABCDEFGHIJKLMNOPQRSTUVWXYZabcdefghijklmnopqrstuvwxyz0123456789+/''"

fun base64_bytes :: "nat list \<Rightarrow> string" where
  "base64_bytes [] = []"
| "base64_bytes [a] =
     [base64_alphabet ! (a div 4), base64_alphabet ! ((a mod 4) * 16), CHR ''='', CHR ''='']"
| "base64_bytes [a, b] =
     [base64_alphabet ! (a div 4), base64_alphabet ! ((a mod 4) * 16 + b div 16),
      base64_alphabet ! ((b mod 16) * 4), CHR ''='']"
| "base64_bytes (a # b # c # r) =
     [base64_alphabet ! (a div 4), base64_alphabet ! ((a mod 4) * 16 + b div 16),
      base64_alphabet ! ((b mod 16) * 4 + c div 64), base64_alphabet ! (c mod 64)]
     @ base64_bytes r"

definition base64 :: "string \<Rightarrow> string" where
  "base64 s = base64_bytes (map of_char s)"

definition remoteStore :: collaborators where
  \<comment> \<open>every URL holds the same fourteen bytes\<close>
  "remoteStore = \<lparr>fetch = (\<lambda>url. Some ''Hello, world!!''), Encoder = base64\<rparr>"

definition leaf :: "string list \<Rightarrow> string \<Rightarrow> node" where
  \<comment> \<open>a single part with a local body\<close>
  "leaf hdr content = Node (Some hdr) (Some []) (Some content) None None None
                        (Some (int (length content)))"

definition simpleMessage :: node where
  "simpleMessage = leaf [''Subject: hi'', ''Content-Type: text/plain''] ''Hello''"

definition oneChildTree :: node where
  "oneChildTree =
     Node (Some [''Content-Type: multipart/mixed; boundary=b'']) (Some []) None (Some ''b'')
       (Some [leaf [''Content-Type: text/plain''] ''Hello'']) None (Some 0)"

definition firstPart :: node where
  "firstPart = leaf [''Content-Type: text/plain''] ''first''"

definition secondPart :: node where
  "secondPart = leaf [''Content-Type: text/html''] ''second''"

definition twoPartTree :: node where
  "twoPartTree =
     Node (Some [''Content-Type: multipart/mixed; boundary=b'']) (Some []) None (Some ''b'')
       (Some [firstPart, secondPart]) None (Some 0)"

definition innerMessage :: node where
  "innerMessage =
     Node (Some [''Content-Type: multipart/mixed; boundary=c'']) (Some []) None (Some ''c'')
       (Some [leaf [''Content-Type: text/plain''] ''inner'']) None (Some 0)"

definition rfc822Part :: node where
  \<comment> \<open>a \<^verbatim>\<open>message/rfc822\<close> part: no \<open>childNodes\<close> of its own, the nested message in \<open>message\<close>\<close>
  "rfc822Part =
     Node (Some [''Content-Type: message/rfc822'']) (Some []) None None None
       (Some innerMessage) (Some 0)"

definition forwardedParts :: node where
  "forwardedParts =
     Node (Some [''Content-Type: multipart/mixed; boundary=b'']) (Some []) None (Some ''b'')
       (Some [rfc822Part]) None (Some 0)"

definition partsAndMessage :: node where
  \<comment> \<open>a root with one child of its own that also carries a nested message\<close>
  "partsAndMessage =
     Node (Some [''Content-Type: multipart/mixed; boundary=b'']) (Some []) None (Some ''b'')
       (Some [leaf [''Content-Type: text/plain''] ''outer'']) (Some innerMessage) (Some 0)"

definition externalPart :: node where
  \<comment> \<open>a part whose content is stored remotely; the parser keeps the marker lines in \<open>header\<close>\<close>
  "externalPart =
     Node (Some [''Content-Type: application/pdf'', ''X-Attachment-Stream-Url: <http://store/1>''])
       (Some [(''content-type'', ''application/pdf''),
              (''x-attachment-stream-url'', ''<http://store/1>'')])
       None None None None (Some 12)"

definition forwardedMessage :: node where
  \<comment> \<open>a multipart root whose only child is a \<^verbatim>\<open>message/rfc822\<close> part; the nested message is
      \<open>externalPart\<close>\<close>
  "forwardedMessage =
     Node (Some [''Content-Type: multipart/mixed; boundary=b'']) (Some []) None (Some ''b'')
       (Some [Node (Some [''Content-Type: message/rfc822'']) (Some []) None None None
                (Some externalPart) (Some 0)])
       None (Some 0)"

definition encodedPart :: node where
  \<comment> \<open>as \<open>externalPart\<close>, with content that is stored already encoded\<close>
  "encodedPart =
     Node (Some [''Content-Type: application/pdf'', ''X-Attachment-Stream-Encoded: Yes'',
                 ''X-Attachment-Stream-Url: <http://store/2>''])
       (Some [(''content-type'', ''application/pdf''),
              (''x-attachment-stream-encoded'', ''Yes''),
              (''x-attachment-stream-url'', ''<http://store/2>'')])
       None None None None (Some 12)"

definition preambleOnly :: node where
  \<comment> \<open>a multipart node with a body of its own and an empty list of parts\<close>
  "preambleOnly =
     Node (Some [''Content-Type: multipart/mixed; boundary=b'']) (Some []) (Some ''preamble'')
       (Some ''b'') (Some []) None (Some 8)"

definition markedMultipart :: node where
  \<comment> \<open>a node with a boundary and an empty list of parts that also carries the marker of
      external content\<close>
  "markedMultipart =
     Node (Some [''Content-Type: multipart/mixed; boundary=b'',
                 ''X-Attachment-Stream-Url: <http://store/1>''])
       (Some [(''content-type'', ''multipart/mixed''),
              (''x-attachment-stream-url'', ''<http://store/1>'')])
       None (Some ''b'') (Some []) None (Some 12)"

definition deadStore :: collaborators where
  \<comment> \<open>every fetch fails\<close>
  "deadStore = \<lparr>fetch = (\<lambda>url. None), Encoder = base64\<rparr>"

section \<open>Predicates on trees and on the states of the two walks\<close>

text \<open>
  \<open>measurable\<close>: every node has a \<open>parsedHeader\<close>, and a \<open>size\<close> where it holds a body or the
  marker of external content.
\<close>

fun measurable :: "node \<Rightarrow> bool" where
  "measurable (Node hdr ph bd bnd cs msg sz) =
     (ph \<noteq> None
      \<and> (if truthy bd \<or> hasStreamUrl ph then sz \<noteq> None else True)
      \<and> (case cs of None \<Rightarrow> True | Some l \<Rightarrow> list_all measurable l))"

text \<open>
  \<open>fillAbsent\<close> puts an empty \<open>header\<close>, \<open>body\<close> and \<open>childNodes\<close> where they are absent, in
  every node that the walks visit.
\<close>

fun fillAbsent :: "node \<Rightarrow> node" where
  "fillAbsent (Node hdr ph bd bnd cs msg sz) =
     Node (Some (case hdr of None \<Rightarrow> [] | Some h \<Rightarrow> h)) ph (Some (orEmpty bd)) bnd
       (Some (case cs of None \<Rightarrow> [] | Some l \<Rightarrow> map fillAbsent l)) msg sz"

definition numeric :: "sizestate \<Rightarrow> bool" where
  "numeric s = (case size_acc s of Num k \<Rightarrow> True | NaN \<Rightarrow> False)"

text \<open>
  \<open>consistent\<close>: what the two walks need of a tree to agree. Every node has a
  \<open>parsedHeader\<close>; a node with a boundary has no body and no marker; a node with the
  marker has no body, and the fetch gives, after the encoder and the limiter, exactly
  \<open>size\<close> bytes; a node with a body has no parts, and \<open>size\<close> is the length of the body.
\<close>

fun consistent :: "collaborators \<Rightarrow> node \<Rightarrow> bool" where
  "consistent ext (Node hdr ph bd bnd cs msg sz) =
     (case ph of
        None \<Rightarrow> False
      | Some p \<Rightarrow>
          (if truthy bnd then \<not> truthy bd \<and> \<not> truthy (streamUrl p)
           else if truthy (streamUrl p)
           then \<not> truthy bd
                \<and> (case sz of
                     None \<Rightarrow> False
                   | Some k \<Rightarrow>
                       (case fetch ext (stripAngle (orEmpty (streamUrl p))) of
                          None \<Rightarrow> False
                        | Some fetched \<Rightarrow>
                            int (length (pipeline ext (isYes (streamEncoded p)) k fetched)) = k))
           else if truthy bd
           then sz = Some (int (length (orEmpty bd))) \<and> (cs = None \<or> cs = Some [])
           else True)
          \<and> (case cs of None \<Rightarrow> True | Some l \<Rightarrow> list_all (consistent ext) l))"

text \<open>
  \<open>invariants\<close>: the invariants of the data model. Every node has a \<open>parsedHeader\<close>; it has
  at most one of non-empty \<open>childNodes\<close>, a body and the marker of external content; its
  boundary is there exactly when its \<open>childNodes\<close> are; \<open>size\<close> is the byte length of the
  body, and for external content the number of bytes that the fetch yields through the
  encoder and the limiter.
\<close>

definition declaredSizeFetched ::
  "collaborators \<Rightarrow> (string \<times> string) list option \<Rightarrow> int option \<Rightarrow> bool" where
  "declaredSizeFetched ext ph sz =
     (case ph of
        None \<Rightarrow> False
      | Some p \<Rightarrow>
          (case sz of
             None \<Rightarrow> False
           | Some k \<Rightarrow>
               (case fetch ext (stripAngle (orEmpty (streamUrl p))) of
                  None \<Rightarrow> False
                | Some fetched \<Rightarrow>
                    int (length (pipeline ext (isYes (streamEncoded p)) k fetched)) = k)))"

fun invariants :: "collaborators \<Rightarrow> node \<Rightarrow> bool" where
  "invariants ext (Node hdr ph bd bnd cs msg sz) =
     (ph \<noteq> None
      \<and> length (filter id [cs \<noteq> None \<and> cs \<noteq> Some [], truthy bd, hasStreamUrl ph]) \<le> 1
      \<and> truthy bnd = (cs \<noteq> None)
      \<and> (if truthy bd then sz = Some (int (length (orEmpty bd))) else True)
      \<and> (if hasStreamUrl ph then declaredSizeFetched ext ph sz else True)
      \<and> (case cs of None \<Rightarrow> True | Some l \<Rightarrow> list_all (invariants ext) l))"

text \<open>\<open>plainMultiparts\<close>: no node with a boundary has a body or the marker.\<close>

fun plainMultiparts :: "node \<Rightarrow> bool" where
  "plainMultiparts (Node hdr ph bd bnd cs msg sz) =
     ((if truthy bnd then \<not> truthy bd \<and> \<not> hasStreamUrl ph else True)
      \<and> (case cs of None \<Rightarrow> True | Some l \<Rightarrow> list_all plainMultiparts l))"

text \<open>
  \<open>agree\<close>: the two walks are at the same point, the estimate so far is the number of
  bytes written so far, and no body is waiting to be written.
\<close>

definition agree :: "sizestate \<Rightarrow> rebuildstate \<Rightarrow> bool" where
  "agree ss rs =
     (first ss = first rs \<and> root ss = root rs
      \<and> size_acc ss = Num (int (length (res rs))) \<and> remainder rs = [])"

section \<open>Header filter: idempotence\<close>

text \<open>
  C9. Filtering an already filtered sequence of header lines gives the same sequence: a
  second application of \<open>filterHeaders\<close> removes nothing and adds nothing.
\<close>

theorem C9_filterHeaders_idempotent:
  "filterHeaders (Some (filterHeaders h)) = filterHeaders h"
  by (simp add: filterHeaders_def)

section \<open>The simple single-part message\<close>

lemma simpleMessage_size: "getSize simpleMessage False = Inr (Num 46)"
  by code_simp

text \<open>
  C7, as stated, gives 45 for the estimate of the message with the header lines
  \<open>Subject: hi\<close> and \<open>Content-Type: text/plain\<close> and the body \<open>Hello\<close>. The estimate is not 45.
\<close>

theorem C7_size_is_not_45:
  "getSize simpleMessage False \<noteq> Inr (Num 45)"
  by (simp add: simpleMessage_size)

text \<open>
  C7, amended. Selecting the content of that message and buffering it gives exactly the
  header lines, a blank line and the body; the sequence has 46 bytes, and \<open>getSize\<close> of
  the message is 46.
\<close>

theorem C7_simple_message:
  "bodyQuery Number ext simpleMessage (Obj \<lparr>path = None, type = ''content'', headers = None\<rparr>)
     = Inr (''Subject: hi'' @ CRLF @ ''Content-Type: text/plain'' @ CRLF @ CRLF @ ''Hello'')
   \<and> length (''Subject: hi'' @ CRLF @ ''Content-Type: text/plain'' @ CRLF @ CRLF @ ''Hello'') = 46
   \<and> getSize simpleMessage False = Inr (Num 46)"
  by code_simp

section \<open>Unresolved paths\<close>

text \<open>
  C5. When the selector has a path and the path does not resolve to a node, \<open>getContents\<close>
  returns the empty string, whatever the type of the selector, and throws nothing.
\<close>

theorem C5_unresolved_path_is_empty:
  assumes "truthy (path sel)"
    and "resolveContentNode Number mimeTree (path sel) = None"
  shows "getContents Number ext mimeTree (Obj sel) = Inr (Str [])"
  using assms by (simp add: getContents_def toSelector_def selectNode_def)

theorem C5_unresolved_path_witness:
  "truthy (Some ''9.9'')
   \<and> resolveContentNode Number_dec oneChildTree (Some ''9.9'') = None
   \<and> getContents Number_dec remoteStore oneChildTree
        (Obj \<lparr>path = Some ''9.9'', type = ''content'', headers = None\<rparr>) = Inr (Str [])"
proof -
  have a: "truthy (path \<lparr>path = Some ''9.9'', type = ''content'', headers = None\<rparr>)"
    by (simp add: truthy_def)
  have b: "resolveContentNode Number_dec oneChildTree
             (path \<lparr>path = Some ''9.9'', type = ''content'', headers = None\<rparr>) = None"
    by code_simp
  show ?thesis
    using a b C5_unresolved_path_is_empty [OF a b, of remoteStore] by simp
qed

section \<open>Path resolution\<close>

lemma split_on_not_Nil [simp]: "split_on d s \<noteq> []"
  by (induction s) (auto split: list.splits)

lemma split_on_no_delim: "d \<notin> set p \<Longrightarrow> split_on d p = [p]"
  by (induction p) auto

lemma split_on_append: "split_on d (a @ d # b) = split_on d a @ split_on d b"
  by (induction a) (auto split: list.splits)

lemma resolveLoop_takeWhile:
  "resolveLoop N t segs = resolveLoop N t (takeWhile (\<lambda>s. s \<noteq> []) segs)"
  by (induction segs arbitrary: t) (auto split: option.splits)

lemma resolveLoop_append:
  "[] \<notin> set pre \<Longrightarrow>
   resolveLoop N t (pre @ rest) =
     (case resolveLoop N t pre of None \<Rightarrow> None | Some n \<Rightarrow> resolveLoop N n rest)"
  by (induction pre arbitrary: t) (auto split: option.splits)

lemma resolve_is_loop:
  "\<not> (childNodes t = None \<and> p = ''1'') \<Longrightarrow>
   resolveContentNode N t (Some p) = resolveLoop N t (split_on (CHR ''.'') p)"
  by (auto simp: resolveContentNode_def orEmpty_def Let_def)

text \<open>
  C2, as stated, promises nothing for a path that indexes through a node without
  \<open>childNodes\<close>, and \<open>childNodes[i-1]\<close> for every tree whose root has children. The
  resolver first follows the nested message of the node it stands on. In
  \<open>forwardedParts\<close> the only child of the root is a \<^verbatim>\<open>message/rfc822\<close> part without
  \<open>childNodes\<close>, and the path \<open>1.1\<close> resolves to the first part of its nested message. A
  root that has children and also carries a nested message resolves the path \<open>1\<close> to
  the child of the message, not to its own child.
\<close>

theorem C2_message_redirect_counterexample:
  "childNodes forwardedParts = Some [rfc822Part] \<and> childNodes rfc822Part = None
   \<and> resolveContentNode Number_dec forwardedParts (Some ''1'') = Some rfc822Part
   \<and> resolveContentNode Number_dec forwardedParts (Some ''1.1'')
       = Some (leaf [''Content-Type: text/plain''] ''inner'')
   \<and> childNodes partsAndMessage = Some [leaf [''Content-Type: text/plain''] ''outer'']
   \<and> resolveContentNode Number_dec partsAndMessage (Some ''1'')
       = Some (leaf [''Content-Type: text/plain''] ''inner'')
   \<and> leaf [''Content-Type: text/plain''] ''inner''
       \<noteq> [leaf [''Content-Type: text/plain''] ''outer''] ! 0"
  by code_simp

text \<open>
  C2, amended. Let the root have the children \<open>cs\<close> and carry no nested message, and let
  \<open>p\<close> be a single segment that the language reads as the integer \<open>i\<close>. Then the path \<open>p\<close>
  resolves to \<open>cs[i-1]\<close> when \<open>1 \<le> i \<le> length cs\<close>, and to nothing when \<open>i\<close> is outside
  that range (\<open>0\<close> and \<open>N+1\<close> among them).
  A path whose segments \<open>pre\<close> lead to a node \<open>n\<close> and whose next segment indexes \<open>n\<close>
  (its nested message, when it has one) without \<open>childNodes\<close> resolves to nothing; the
  bare \<open>1\<close> on a root without \<open>childNodes\<close> is the exception.
  A missing or empty path, and the bare \<open>1\<close> on a root without \<open>childNodes\<close>, resolve to
  the root.
\<close>

theorem C2_resolve_paths:
  "(childNodes t = Some cs \<and> message t = None \<and> CHR ''.'' \<notin> set p \<and> p \<noteq> []
      \<and> Number p = Some i \<longrightarrow>
       (1 \<le> i \<and> i \<le> int (length cs) \<longrightarrow>
          resolveContentNode Number t (Some p) = Some (cs ! nat (i - 1)))
     \<and> (i < 1 \<or> int (length cs) < i \<longrightarrow> resolveContentNode Number t (Some p) = None))
   \<and> (split_on (CHR ''.'') q = pre @ seg # post \<and> [] \<notin> set pre \<and> seg \<noteq> []
      \<and> resolveLoop Number t pre = Some n \<and> childNodes (followMessage n) = None
      \<and> \<not> (childNodes t = None \<and> q = ''1'') \<longrightarrow>
       resolveContentNode Number t (Some q) = None)
   \<and> resolveContentNode Number t None = Some t
   \<and> resolveContentNode Number t (Some []) = Some t
   \<and> (childNodes t = None \<longrightarrow> resolveContentNode Number t (Some ''1'') = Some t)"
proof -
  have single: "resolveContentNode Number t (Some p) =
      (if 1 \<le> i \<and> i \<le> int (length cs) then Some (cs ! nat (i - 1)) else None)"
    if "childNodes t = Some cs" "message t = None" "CHR ''.'' \<notin> set p" "p \<noteq> []"
       "Number p = Some i"
    using that
    by (auto simp: resolveContentNode_def orEmpty_def split_on_no_delim followMessage_def
        childAt_def)
  have through: "resolveContentNode Number t (Some q) = None"
    if "split_on (CHR ''.'') q = pre @ seg # post" "[] \<notin> set pre" "seg \<noteq> []"
       "resolveLoop Number t pre = Some n" "childNodes (followMessage n) = None"
       "\<not> (childNodes t = None \<and> q = ''1'')"
  proof -
    have "resolveContentNode Number t (Some q) = resolveLoop Number t (pre @ seg # post)"
      using that(1,6) by (simp add: resolve_is_loop)
    also have "\<dots> = resolveLoop Number n (seg # post)"
      using that(2,4) by (simp add: resolveLoop_append)
    also have "\<dots> = None"
      using that(3,5) by (simp add: childAt_def split: option.splits)
    finally show ?thesis .
  qed
  have root: "resolveContentNode Number t None = Some t"
    "resolveContentNode Number t (Some []) = Some t"
    by (simp_all add: resolveContentNode_def orEmpty_def)
  have one: "resolveContentNode Number t (Some ''1'') = Some t" if "childNodes t = None"
    using that by (simp add: resolveContentNode_def orEmpty_def)
  show ?thesis
    using single through root one by auto
qed

theorem C2_resolve_paths_witness:
  "resolveContentNode Number_dec twoPartTree (Some ''2'') = Some secondPart
   \<and> resolveContentNode Number_dec twoPartTree (Some ''0'') = None
   \<and> resolveContentNode Number_dec twoPartTree (Some ''3'') = None
   \<and> resolveContentNode Number_dec twoPartTree (Some ''1.1'') = None
   \<and> resolveContentNode Number_dec twoPartTree None = Some twoPartTree
   \<and> resolveContentNode Number_dec simpleMessage (Some ''1'') = Some simpleMessage"
proof -
  have tree: "childNodes twoPartTree = Some [firstPart, secondPart]"
    "message twoPartTree = None"
    by (simp_all add: twoPartTree_def)
  have num: "Number_dec ''2'' = Some 2" "Number_dec ''0'' = Some 0" "Number_dec ''3'' = Some 3"
    by code_simp+
  have two: "resolveContentNode Number_dec twoPartTree (Some ''2'') = Some secondPart"
    using C2_resolve_paths [where t = twoPartTree and cs = "[firstPart, secondPart]"
        and p = "''2''" and Number = Number_dec and i = 2] tree num
    by simp
  have zero: "resolveContentNode Number_dec twoPartTree (Some ''0'') = None"
    using C2_resolve_paths [where t = twoPartTree and cs = "[firstPart, secondPart]"
        and p = "''0''" and Number = Number_dec and i = 0] tree num
    by simp
  have three: "resolveContentNode Number_dec twoPartTree (Some ''3'') = None"
    using C2_resolve_paths [where t = twoPartTree and cs = "[firstPart, secondPart]"
        and p = "''3''" and Number = Number_dec and i = 3] tree num
    by simp
  have seg: "split_on (CHR ''.'') ''1.1'' = [''1''] @ ''1'' # []"
    by code_simp
  have reach: "resolveLoop Number_dec twoPartTree [''1''] = Some firstPart"
    by code_simp
  have nochild: "childNodes (followMessage firstPart) = None"
    by code_simp
  have through: "resolveContentNode Number_dec twoPartTree (Some ''1.1'') = None"
    using C2_resolve_paths [where t = twoPartTree and Number = Number_dec and q = "''1.1''"
        and pre = "[''1'']" and seg = "''1''" and post = "[]" and n = firstPart]
      seg reach nochild tree
    by simp
  have root: "resolveContentNode Number_dec twoPartTree None = Some twoPartTree"
    using C2_resolve_paths [where t = twoPartTree and Number = Number_dec] by simp
  have leaf: "childNodes simpleMessage = None"
    by (simp add: simpleMessage_def leaf_def)
  have one: "resolveContentNode Number_dec simpleMessage (Some ''1'') = Some simpleMessage"
    using C2_resolve_paths [where t = simpleMessage and Number = Number_dec] leaf by simp
  show ?thesis
    using two zero three through root one by simp
qed

text \<open>
  C10, as stated, says that \<open>1..2\<close> resolves to the same node as \<open>1\<close> on every tree. On a
  root without \<open>childNodes\<close> the bare \<open>1\<close> is the root, but \<open>1..2\<close> is not the bare \<open>1\<close>: its
  first segment indexes the missing \<open>childNodes\<close> and the resolution fails.
\<close>

theorem C10_bare_one_counterexample:
  "resolveContentNode Number_dec simpleMessage (Some ''1'') = Some simpleMessage
   \<and> resolveContentNode Number_dec simpleMessage (Some ''1..2'') = None"
  by code_simp

text \<open>
  C10, amended. A path with an empty segment resolves to what the walk over the segments
  before the first empty one gives: the node reached so far, or nothing when that walk
  has already failed; the segments after the empty one are not read. So for every path
  \<open>q\<close> without an empty segment, \<open>q.\<close> and \<open>q..r\<close> resolve as \<open>q\<close> does, unless \<open>q\<close> is the
  bare \<open>1\<close> and the root has no \<open>childNodes\<close>; and a path that starts with a dot resolves
  to the root.
\<close>

theorem C10_empty_segment_stops:
  "([] \<in> set (split_on (CHR ''.'') p) \<longrightarrow>
      resolveContentNode Number t (Some p)
        = resolveLoop Number t (takeWhile (\<lambda>s. s \<noteq> []) (split_on (CHR ''.'') p)))
   \<and> ([] \<notin> set (split_on (CHR ''.'') q) \<and> \<not> (childNodes t = None \<and> q = ''1'') \<longrightarrow>
        resolveContentNode Number t (Some (q @ ''.'')) = resolveContentNode Number t (Some q)
      \<and> resolveContentNode Number t (Some (q @ ''..'' @ r))
          = resolveContentNode Number t (Some q))
   \<and> resolveContentNode Number t (Some (''.'' @ r)) = Some t"
proof -
  have stop: "resolveContentNode Number t (Some p)
        = resolveLoop Number t (takeWhile (\<lambda>s. s \<noteq> []) (split_on (CHR ''.'') p))"
    if "[] \<in> set (split_on (CHR ''.'') p)" for p
  proof -
    have "p \<noteq> ''1''" using that by auto
    then have "resolveContentNode Number t (Some p)
                 = resolveLoop Number t (split_on (CHR ''.'') p)"
      by (simp add: resolve_is_loop)
    then show ?thesis using resolveLoop_takeWhile by simp
  qed
  have tail: "resolveContentNode Number t (Some (q @ CHR ''.'' # x))
                = resolveContentNode Number t (Some q)"
    if "[] \<notin> set (split_on (CHR ''.'') q)" "\<not> (childNodes t = None \<and> q = ''1'')"
       "x = [] \<or> (\<exists>r. x = CHR ''.'' # r)" for x
  proof -
    have e: "[] \<in> set (split_on (CHR ''.'') (q @ CHR ''.'' # x))"
      using that(3) by (auto simp: split_on_append)
    have tw: "takeWhile (\<lambda>s. s \<noteq> []) (split_on (CHR ''.'') (q @ CHR ''.'' # x))
                = split_on (CHR ''.'') q"
      using that(1,3) by (auto simp: split_on_append takeWhile_append)
    show ?thesis using stop[OF e] tw that(2) by (simp add: resolve_is_loop)
  qed
  have lead: "resolveContentNode Number t (Some (''.'' @ r)) = Some t"
    by (simp add: resolveContentNode_def orEmpty_def)
  show ?thesis using stop tail lead by auto
qed

theorem C10_empty_segment_witness:
  "[] \<in> set (split_on (CHR ''.'') ''1..2'')
   \<and> resolveContentNode Number_dec twoPartTree (Some ''1..2'') = Some firstPart
   \<and> resolveContentNode Number_dec twoPartTree (Some ''1..2'')
       = resolveContentNode Number_dec twoPartTree (Some ''1'')
   \<and> resolveContentNode Number_dec twoPartTree (Some ''1.'')
       = resolveContentNode Number_dec twoPartTree (Some ''1'')
   \<and> resolveContentNode Number_dec twoPartTree (Some ''.2'') = Some twoPartTree"
proof -
  have e: "[] \<in> set (split_on (CHR ''.'') ''1..2'')"
    by code_simp
  have walk: "resolveLoop Number_dec twoPartTree
                (takeWhile (\<lambda>s. s \<noteq> []) (split_on (CHR ''.'') ''1..2'')) = Some firstPart"
    by code_simp
  have q: "[] \<notin> set (split_on (CHR ''.'') ''1'')
           \<and> \<not> (childNodes twoPartTree = None \<and> ''1'' = ''1'')"
    by (simp add: twoPartTree_def)
  note inst = C10_empty_segment_stops [where Number = Number_dec and t = twoPartTree
      and p = "''1..2''" and q = "''1''" and r = "''2''"]
  have a: "resolveContentNode Number_dec twoPartTree (Some ''1..2'') = Some firstPart"
    using inst [THEN conjunct1, THEN mp, OF e] walk by (rule trans)
  note b = inst [THEN conjunct2, THEN conjunct1, THEN mp, OF q]
    inst [THEN conjunct2, THEN conjunct2]
  show ?thesis using e a b by simp
qed

section \<open>Header selectors\<close>

lemma headerKey_name:
  "CHR '':'' \<notin> set a \<Longrightarrow> headerKey (a @ CHR '':'' # v) = trim (toLowerCase a)"
proof -
  assume "CHR '':'' \<notin> set a"
  then have "takeWhile (\<lambda>c. c \<noteq> CHR '':'') (a @ CHR '':'' # v) = a"
    by (induction a) auto
  then show ?thesis by (simp add: headerKey_def)
qed

lemma isSpace_code:
  "isSpace c \<longleftrightarrow> (of_char c :: nat) \<in> {9, 10, 11, 12, 13, 32, 160}"
proof -
  have e: "c = d \<longleftrightarrow> (of_char c :: nat) = of_char d" for d
    by simp
  show ?thesis
    unfolding isSpace_def by (simp add: e del: of_char_eq_iff)
qed

lemma isSpace_toLowerChar [simp]: "isSpace (toLowerChar c) = isSpace c"
  by (auto simp: isSpace_code toLowerChar_def Let_def)

lemma trim_toLowerCase: "trim (toLowerCase s) = toLowerCase (trim s)"
  by (simp add: trim_def toLowerCase_def dropWhile_map rev_map comp_def)

text \<open>
  C6. Let the selector resolve to \<open>node\<close>. With type \<open>header.fields\<close> and a missing or
  empty \<open>headers\<close>, \<open>getContents\<close> returns the four bytes CR LF CR LF, whatever the headers
  of the node. With type \<open>header.fields.not\<close> and a missing or empty \<open>headers\<close> it returns
  all filtered header lines of the node joined by CRLF, and the blank line. With a
  non-empty \<open>headers\<close> the lines kept (or dropped) are those whose key is in \<open>headers\<close>,
  and the key of a line is the lower-cased, trimmed name before the first colon: two
  lines whose names differ in case only have the same key. The names in \<open>headers\<close> are
  compared as they are given; when they are lower-cased, as the caller gives them, a line
  is selected exactly when its name equals a requested name up to case (and up to the
  white space around the name).
\<close>

theorem C6_header_fields:
  "(selectNode Number t sel = Some node \<longrightarrow>
      (type sel = ''header.fields'' \<and> (headers sel = None \<or> headers sel = Some []) \<longrightarrow>
         getContents Number ext t (Obj sel) = Inr (Str blankLine))
    \<and> (type sel = ''header.fields.not'' \<and> (headers sel = None \<or> headers sel = Some []) \<longrightarrow>
         getContents Number ext t (Obj sel)
           = Inr (Str (join (filterHeaders (header node)) CRLF @ blankLine)))
    \<and> (type sel = ''header.fields'' \<and> headers sel = Some hs \<and> hs \<noteq> [] \<longrightarrow>
         getContents Number ext t (Obj sel)
           = Inr (Str (join (filter (\<lambda>line. headerKey line \<in> set hs)
                              (filterHeaders (header node))) CRLF @ blankLine)))
    \<and> (type sel = ''header.fields.not'' \<and> headers sel = Some hs \<and> hs \<noteq> [] \<longrightarrow>
         getContents Number ext t (Obj sel)
           = Inr (Str (join (filter (\<lambda>line. headerKey line \<notin> set hs)
                              (filterHeaders (header node))) CRLF @ blankLine))))
   \<and> blankLine = [CHR 0x0D, CHR 0x0A, CHR 0x0D, CHR 0x0A] \<and> length blankLine = 4
   \<and> (CHR '':'' \<notin> set a \<longrightarrow> headerKey (a @ CHR '':'' # v) = trim (toLowerCase a))
   \<and> ((\<forall>h \<in> set names. toLowerCase h = h) \<and> CHR '':'' \<notin> set a \<longrightarrow>
        (headerKey (a @ CHR '':'' # v) \<in> set names)
          = (\<exists>h \<in> set names. toLowerCase h = toLowerCase (trim a)))
   \<and> (CHR '':'' \<notin> set a \<and> CHR '':'' \<notin> set b \<and> toLowerCase a = toLowerCase b \<longrightarrow>
        headerKey (a @ CHR '':'' # v) = headerKey (b @ CHR '':'' # w))"
proof -
  have sel: "getContents Number ext t (Obj sel) =
      (if type sel = ''header.fields''
       then (case headers sel of
               None \<Rightarrow> Inr (Str blankLine)
             | Some hs \<Rightarrow>
                 if hs = [] then Inr (Str blankLine)
                 else Inr (Str (join (filter (\<lambda>line. headerKey line \<in> set hs)
                                        (filterHeaders (header node))) CRLF @ blankLine)))
       else (case headers sel of
               None \<Rightarrow> Inr (Str (join (filterHeaders (header node)) CRLF @ blankLine))
             | Some hs \<Rightarrow>
                 if hs = []
                 then Inr (Str (join (filterHeaders (header node)) CRLF @ blankLine))
                 else Inr (Str (join (filter (\<lambda>line. headerKey line \<notin> set hs)
                                        (filterHeaders (header node))) CRLF @ blankLine))))"
    if "selectNode Number t sel = Some node"
       "type sel = ''header.fields'' \<or> type sel = ''header.fields.not''"
    using that by (auto simp: getContents_def toSelector_def)
  have blank: "blankLine = [CHR 0x0D, CHR 0x0A, CHR 0x0D, CHR 0x0A]" "length blankLine = 4"
    by (simp_all add: blankLine_def CRLF_def)
  have key: "headerKey (a @ CHR '':'' # v) = headerKey (b @ CHR '':'' # w)"
    if "CHR '':'' \<notin> set a" "CHR '':'' \<notin> set b" "toLowerCase a = toLowerCase b"
    using that by (simp add: headerKey_name)
  have member: "(headerKey (a @ CHR '':'' # v) \<in> set names)
                  = (\<exists>h \<in> set names. toLowerCase h = toLowerCase (trim a))"
    if "\<forall>h \<in> set names. toLowerCase h = h" "CHR '':'' \<notin> set a"
    using that by (auto simp: headerKey_name trim_toLowerCase)
  show ?thesis
    using sel blank key headerKey_name member by auto
qed

theorem C6_header_fields_witness:
  "getContents Number_dec remoteStore simpleMessage
     (Obj \<lparr>path = None, type = ''header.fields'', headers = None\<rparr>) = Inr (Str blankLine)
   \<and> getContents Number_dec remoteStore simpleMessage
       (Obj \<lparr>path = None, type = ''header.fields.not'', headers = Some []\<rparr>)
       = Inr (Str (''Subject: hi'' @ CRLF @ ''Content-Type: text/plain'' @ blankLine))
   \<and> getContents Number_dec remoteStore simpleMessage
       (Obj \<lparr>path = None, type = ''header.fields'', headers = Some [''subject'']\<rparr>)
       = Inr (Str (''Subject: hi'' @ blankLine))
   \<and> getContents Number_dec remoteStore simpleMessage
       (Obj \<lparr>path = None, type = ''header.fields.not'', headers = Some [''subject'']\<rparr>)
       = Inr (Str (''Content-Type: text/plain'' @ blankLine))
   \<and> headerKey (''SUBJECT'' @ CHR '':'' # '' a'') = headerKey (''Subject'' @ CHR '':'' # '' b'')
   \<and> headerKey (''SubJect '' @ CHR '':'' # '' c'') \<in> set [''subject'', ''date'']"
proof -
  have node: "selectNode Number_dec simpleMessage \<lparr>path = None, type = ty, headers = h\<rparr>
                = Some simpleMessage" for ty h
    by (simp add: selectNode_def truthy_def)
  have lines: "filterHeaders (header simpleMessage) = [''Subject: hi'', ''Content-Type: text/plain'']"
    by code_simp
  have keys: "filter (\<lambda>line. headerKey line \<in> set [''subject''])
                [''Subject: hi'', ''Content-Type: text/plain''] = [''Subject: hi'']"
    "filter (\<lambda>line. headerKey line \<notin> set [''subject''])
                [''Subject: hi'', ''Content-Type: text/plain''] = [''Content-Type: text/plain'']"
    by code_simp+
  have a: "getContents Number_dec remoteStore simpleMessage
     (Obj \<lparr>path = None, type = ''header.fields'', headers = None\<rparr>) = Inr (Str blankLine)"
    using C6_header_fields [where Number = Number_dec and ext = remoteStore
        and t = simpleMessage and node = simpleMessage
        and sel = "\<lparr>path = None, type = ''header.fields'', headers = None\<rparr>"] node
    by simp
  have b: "getContents Number_dec remoteStore simpleMessage
       (Obj \<lparr>path = None, type = ''header.fields.not'', headers = Some []\<rparr>)
       = Inr (Str (''Subject: hi'' @ CRLF @ ''Content-Type: text/plain'' @ blankLine))"
    using C6_header_fields [where Number = Number_dec and ext = remoteStore
        and t = simpleMessage and node = simpleMessage
        and sel = "\<lparr>path = None, type = ''header.fields.not'', headers = Some []\<rparr>"]
      node lines
    by simp
  have c: "getContents Number_dec remoteStore simpleMessage
       (Obj \<lparr>path = None, type = ''header.fields'', headers = Some [''subject'']\<rparr>)
       = Inr (Str (''Subject: hi'' @ blankLine))"
    using C6_header_fields [where Number = Number_dec and ext = remoteStore
        and t = simpleMessage and node = simpleMessage and hs = "[''subject'']"
        and sel = "\<lparr>path = None, type = ''header.fields'', headers = Some [''subject'']\<rparr>"]
      node lines keys
    by simp
  have d: "getContents Number_dec remoteStore simpleMessage
       (Obj \<lparr>path = None, type = ''header.fields.not'', headers = Some [''subject'']\<rparr>)
       = Inr (Str (''Content-Type: text/plain'' @ blankLine))"
    using C6_header_fields [where Number = Number_dec and ext = remoteStore
        and t = simpleMessage and node = simpleMessage and hs = "[''subject'']"
        and sel = "\<lparr>path = None, type = ''header.fields.not'', headers = Some [''subject'']\<rparr>"]
      node lines keys
    by simp
  have names: "CHR '':'' \<notin> set ''SUBJECT'' \<and> CHR '':'' \<notin> set ''Subject''
               \<and> toLowerCase ''SUBJECT'' = toLowerCase ''Subject''"
    by code_simp
  have e: "headerKey (''SUBJECT'' @ CHR '':'' # '' a'') = headerKey (''Subject'' @ CHR '':'' # '' b'')"
    using C6_header_fields [where a = "''SUBJECT''" and b = "''Subject''" and v = "'' a''"
        and w = "'' b''", THEN conjunct2, THEN conjunct2, THEN conjunct2, THEN conjunct2,
        THEN conjunct2, THEN mp, OF names]
    by simp
  have lowered: "(\<forall>h \<in> set [''subject'', ''date'']. toLowerCase h = h)
                 \<and> CHR '':'' \<notin> set ''SubJect ''"
    by code_simp
  have requested: "\<exists>h \<in> set [''subject'', ''date'']. toLowerCase h = toLowerCase (trim ''SubJect '')"
    by code_simp
  have f: "headerKey (''SubJect '' @ CHR '':'' # '' c'') \<in> set [''subject'', ''date'']"
    using C6_header_fields [where a = "''SubJect ''" and v = "'' c''"
        and names = "[''subject'', ''date'']", THEN conjunct2, THEN conjunct2, THEN conjunct2,
        THEN conjunct2, THEN conjunct1, THEN mp, OF lowered] requested
    by (rule iffD2)
  show ?thesis
    using a b c d e f by simp
qed

section \<open>Marker lines in the header of a nested message\<close>

text \<open>
  C3. No header line that starts with the marker prefix \<open>X-Attachment-Stream\<close> may appear
  in the output of \<open>getContents\<close>. The selector \<open>header\<close> with a path to a part that carries
  a nested message returns the header lines of the nested message unfiltered: for
  \<open>forwardedMessage\<close> and the path \<open>1\<close> the output holds the line
  \<open>X-Attachment-Stream-Url: <http://store/1>\<close>, a line that \<open>filterHeaders\<close> removes and
  that the selector \<open>mime\<close> on the nested message itself does not show.
\<close>

theorem C3_nested_header_shows_marker:
  "getContents Number_dec remoteStore forwardedMessage
     (Obj \<lparr>path = Some ''1'', type = ''header'', headers = None\<rparr>)
     = Inr (Str (''Content-Type: application/pdf'' @ CRLF
                 @ ''X-Attachment-Stream-Url: <http://store/1>'' @ blankLine))
   \<and> filterHeaders (Some [''X-Attachment-Stream-Url: <http://store/1>'']) = []
   \<and> getContents Number_dec remoteStore externalPart
        (Obj \<lparr>path = None, type = ''mime'', headers = None\<rparr>)
        = Inr (Str (''Content-Type: application/pdf'' @ blankLine))"
  by code_simp

section \<open>The size estimator returns a number\<close>

lemma numeric_append_size: "numeric s \<Longrightarrow> numeric (append_size d f s)"
  by (cases "size_acc s") (auto simp: numeric_def append_size_def)

lemma numeric_finalize_size: "numeric s \<Longrightarrow> numeric (finalize_size b s)"
  by (simp add: finalize_size_def numeric_append_size)

lemma numeric_header_size: "numeric s \<Longrightarrow> numeric (header_size tO n s)"
  using numeric_append_size [of s] by (simp add: header_size_def numeric_def)

lemma numeric_content_size: "numeric s \<Longrightarrow> numeric (content_size (Some k) s)"
  using numeric_append_size [of s None True]
  by (cases "size_acc (append_size None True s)")
     (auto simp: content_size_def numeric_def Let_def toNumber_def)

lemmas numeric_steps = numeric_append_size numeric_finalize_size numeric_header_size
  numeric_content_size

lemma walk_size_total:
  "measurable n \<Longrightarrow> numeric s \<Longrightarrow> \<exists>s'. walk_size tO n s = Inr s' \<and> numeric s'"
  "list_all measurable l \<Longrightarrow> numeric s \<Longrightarrow>
     \<exists>s'. processChildNodes_size tO bnd l s = Inr s' \<and> numeric s'"
proof (induction tO n s and tO bnd l s rule: walk_size_processChildNodes_size.induct)
  case (1 textOnly hdr ph bd bnd cs msg sz s)
  then show ?case
    by (cases cs) (auto simp: Let_def numeric_steps)
next
  case (2 textOnly bnd s)
  then show ?case by (simp add: numeric_finalize_size)
next
  case (3 textOnly bnd c rest s)
  then show ?case
    by (fastforce simp: numeric_append_size)
qed

text \<open>
  C8, as stated, says that \<open>getSize\<close> has no failure mode and returns an integer also when
  \<open>parsedHeader\<close> or \<open>size\<close> are absent. A node without \<open>parsedHeader\<close> and without body
  makes \<open>getSize\<close> throw a \<open>TypeError\<close>; a node with a body and without \<open>size\<close> makes it
  return \<open>NaN\<close>.
\<close>

theorem C8_absent_parsedHeader_or_size_counterexample:
  "getSize (Node (Some [''Subject: hi'']) None None None None None None) False = Inl TypeError
   \<and> getSize (Node (Some [''Subject: hi'']) (Some []) (Some ''Hello'') None None None None) False
       = Inr NaN"
  by code_simp

lemma headerBlock_fill:
  "headerBlock (Node (Some (case hdr of None \<Rightarrow> [] | Some h \<Rightarrow> h)) ph bd' bnd cs' msg sz)
     = headerBlock (Node hdr ph bd bnd cs msg sz)"
  by (cases hdr) (simp_all add: headerBlock_def filterHeaders_def)

lemma header_size_fill:
  "header_size tO (Node (Some (case hdr of None \<Rightarrow> [] | Some h \<Rightarrow> h)) ph bd' bnd cs' msg sz) s
     = header_size tO (Node hdr ph bd bnd cs msg sz) s"
  using headerBlock_fill [of hdr ph bd' bnd cs' msg sz bd cs]
  by (simp add: header_size_def)

lemma truthy_orEmpty [simp]: "truthy (Some (orEmpty bd)) = truthy bd"
  by (cases bd) (simp_all add: truthy_def orEmpty_def)

lemma walk_size_fill:
  "walk_size tO (fillAbsent n) s = walk_size tO n s"
  "processChildNodes_size tO bnd (map fillAbsent l) s = processChildNodes_size tO bnd l s"
proof (induction tO n s and tO bnd l s rule: walk_size_processChildNodes_size.induct)
  case (1 textOnly hdr ph bd bnd cs msg sz s)
  show ?case
  proof (cases cs)
    case None
    then show ?thesis
      by (simp add: header_size_fill [where bd = bd and cs = cs] Let_def)
  next
    case (Some l)
    note ih = "1.IH"(1) [OF refl _ refl _ Some] "1.IH"(2) [OF refl _ refl _ _ _ Some]
    show ?thesis
    proof (cases "truthy bnd")
      case True
      then show ?thesis using Some ih(1)
        by (cases ph) (auto simp: header_size_fill [where bd = bd and cs = cs] Let_def)
    next
      case False
      then show ?thesis using Some ih(2)
        by (cases ph) (auto simp: header_size_fill [where bd = bd and cs = cs] Let_def)
    qed
  qed
next
  case (2 textOnly bnd s)
  then show ?case by simp
next
  case (3 textOnly bnd c rest s)
  then show ?case by (simp split: sum.splits)
qed

text \<open>
  C8, amended. \<open>getSize\<close> terminates on every tree (it is a total function: the recursion
  is on the tree). On a tree in which every node has a \<open>parsedHeader\<close>, and a \<open>size\<close> where
  it holds a body or the marker of external content, it throws nothing and returns an
  integer. An absent \<open>header\<close>, \<open>body\<close> or \<open>childNodes\<close> counts as an empty one: filling them
  in, at every node, changes neither the result nor the exception.
\<close>

theorem C8_getSize_total:
  "(measurable t \<longrightarrow> (\<exists>k. getSize t textOnly = Inr (Num k)))
   \<and> getSize (fillAbsent t) textOnly = getSize t textOnly"
proof -
  have total: "\<exists>k. getSize t textOnly = Inr (Num k)" if "measurable t"
  proof -
    have "numeric \<lparr>first = True, root = True, size_acc = Num 0\<rparr>"
      by (simp add: numeric_def)
    with that obtain s' where
      "walk_size textOnly t \<lparr>first = True, root = True, size_acc = Num 0\<rparr> = Inr s'"
      "numeric s'"
      using walk_size_total(1) by blast
    then show ?thesis
      by (cases "size_acc s'") (auto simp: getSize_def numeric_def)
  qed
  have absent: "getSize (fillAbsent t) textOnly = getSize t textOnly"
    by (simp add: getSize_def walk_size_fill)
  show ?thesis using total absent by blast
qed

theorem C8_getSize_total_witness:
  "measurable twoPartTree \<and> (\<exists>k. getSize twoPartTree False = Inr (Num k))
   \<and> getSize twoPartTree False = Inr (Num 132)
   \<and> getSize (fillAbsent (Node None (Some []) None None None None None)) True = Inr (Num 0)
   \<and> getSize (Node None (Some []) None None None None None) True = Inr (Num 0)"
proof -
  have m: "measurable twoPartTree"
    by code_simp
  have v: "getSize twoPartTree False = Inr (Num 132)"
    "getSize (Node None (Some []) None None None None None) True = Inr (Num 0)"
    by code_simp+
  show ?thesis
    using m v C8_getSize_total [THEN conjunct1, THEN mp, OF m, of False]
      C8_getSize_total [THEN conjunct2, of "Node None (Some []) None None None None None" True]
    by simp
qed

section \<open>External content\<close>

lemma headerBlock_not_Nil [simp]: "headerBlock n \<noteq> []"
  by (simp add: headerBlock_def CRLF_def)

lemma finalize_res_plain:
  "\<not> truthy bnd \<Longrightarrow> remainder s = [] \<Longrightarrow> finalize_res bnd s = s"
  by (simp add: finalize_res_def append_res_def truthy_def)

text \<open>
  C4, as stated, speaks of every node that carries \<open>x-attachment-stream-url\<close>. The walk of
  \<open>rebuild\<close> tests the boundary first: \<open>markedMultipart\<close> carries the marker, has the size
  12 and satisfies the invariants of the data model, but it has a boundary, and \<open>rebuild\<close>
  writes its header block and the two boundary lines only. Nothing is fetched, encoded or
  limited: the stream is the same, and ends, when every fetch fails, and it holds none of
  the 12 bytes that the limiter would let through.
\<close>

theorem C4_marker_with_boundary_counterexample:
  "hasStreamUrl (parsedHeader markedMultipart) \<and> size_js markedMultipart = Some 12
   \<and> boundary markedMultipart = Some ''b'' \<and> invariants remoteStore markedMultipart
   \<and> rebuild_stream remoteStore markedMultipart False
       = Ended (''Content-Type: multipart/mixed; boundary=b'' @ CRLF @ CRLF @ ''--b'' @ CRLF
                @ ''--b--'' @ CRLF)
   \<and> rebuild_stream deadStore markedMultipart False
       = Ended (''Content-Type: multipart/mixed; boundary=b'' @ CRLF @ CRLF @ ''--b'' @ CRLF
                @ ''--b--'' @ CRLF)
   \<and> LengthLimiter 12 (Encoder remoteStore ''Hello, world!!'') = ''SGVsbG8sIHdv''"
  by code_simp

text \<open>
  C4, amended. Take a node without a boundary that carries \<open>x-attachment-stream-url\<close> and has the
  size \<open>k\<close>, and let the fetch of its URL give the bytes \<open>fetched\<close>. The walk of \<open>rebuild\<close>
  writes the forced newline (with a body, if there is one) and then the content: the
  fetched bytes, base64-encoded unless \<open>x-attachment-stream-encoded\<close> matches \<open>YES\<close>, cut by
  the limiter to the first \<open>k\<close> bytes. The content is never longer than \<open>k\<close>, and for
  \<open>k = 12\<close> it is exactly 12 bytes when the source yields 12 or more.
\<close>

theorem C4_external_content:
  assumes "\<not> truthy bnd" and "truthy (streamUrl p)"
    and "fetch ext (stripAngle (orEmpty (streamUrl p))) = Some fetched"
  shows
    "let n = Node hdr (Some p) bd bnd cs msg (Some k);
         source = (if isYes (streamEncoded p) then fetched else Encoder ext fetched);
         content = LengthLimiter k source
     in (\<exists>s'. walk_res ext textOnly n s = Inr s'
              \<and> res s' = res (append_res None True (header_res textOnly n s)) @ content)
        \<and> rebuild_stream ext n textOnly
            = Ended ((if textOnly then [] else headerBlock n @ CRLF) @ orEmpty bd @ content)
        \<and> content = take (nat k) source
        \<and> int (length content) \<le> max 0 k
        \<and> (k = 12 \<and> 12 \<le> length source \<longrightarrow> length content = 12)"
proof -
  let ?n = "Node hdr (Some p) bd bnd cs msg (Some k)"
  let ?source = "if isYes (streamEncoded p) then fetched else Encoder ext fetched"
  let ?content = "LengthLimiter k ?source"
  have pipe: "pipeline ext (isYes (streamEncoded p)) k fetched = ?content"
    by (simp add: pipeline_def)
  have w: "walk_res ext textOnly ?n s0 =
           Inr ((append_res None True (header_res textOnly ?n s0))
                  \<lparr>res := res (append_res None True (header_res textOnly ?n s0)) @ ?content\<rparr>)"
    for s0
    using assms pipe
    by (simp add: external_res_def Let_def finalize_res_plain append_res_def)
  have a: "\<exists>s'. walk_res ext textOnly ?n s = Inr s'
              \<and> res s' = res (append_res None True (header_res textOnly ?n s)) @ ?content"
    using w [of s] by simp
  have b: "rebuild_stream ext ?n textOnly
            = Ended ((if textOnly then [] else headerBlock ?n @ CRLF) @ orEmpty bd @ ?content)"
    unfolding rebuild_stream_def w
    by (simp add: header_res_def append_res_def truthy_def orEmpty_def)
  have c: "?content = take (nat k) ?source" "int (length ?content) \<le> max 0 k"
    "k = 12 \<and> 12 \<le> length ?source \<longrightarrow> length ?content = 12"
    by (auto simp: LengthLimiter_def)
  show ?thesis
    unfolding Let_def using a b c by blast
qed

theorem C4_external_content_witness:
  "rebuild_stream remoteStore externalPart False
     = Ended (''Content-Type: application/pdf'' @ CRLF @ CRLF @ ''SGVsbG8sIHdv'')
   \<and> Encoder remoteStore ''Hello, world!!'' = ''SGVsbG8sIHdvcmxkISE=''
   \<and> length ''SGVsbG8sIHdv'' = 12
   \<and> rebuild_stream remoteStore encodedPart False
       = Ended (''Content-Type: application/pdf'' @ CRLF @ CRLF @ ''Hello, world'')"
proof -
  let ?p = "[(''content-type'', ''application/pdf''),
             (''x-attachment-stream-url'', ''<http://store/1>'')]"
  let ?q = "[(''content-type'', ''application/pdf''),
             (''x-attachment-stream-encoded'', ''Yes''),
             (''x-attachment-stream-url'', ''<http://store/2>'')]"
  have p: "\<not> truthy None" "truthy (streamUrl ?p)"
    "fetch remoteStore (stripAngle (orEmpty (streamUrl ?p))) = Some ''Hello, world!!''"
    by code_simp+
  have q: "\<not> truthy None" "truthy (streamUrl ?q)"
    "fetch remoteStore (stripAngle (orEmpty (streamUrl ?q))) = Some ''Hello, world!!''"
    by code_simp+
  have enc: "Encoder remoteStore ''Hello, world!!'' = ''SGVsbG8sIHdvcmxkISE=''"
    by code_simp
  have yes: "\<not> isYes (streamEncoded ?p)" "isYes (streamEncoded ?q)"
    by code_simp+
  have hb: "headerBlock externalPart = ''Content-Type: application/pdf'' @ CRLF"
    "headerBlock encodedPart = ''Content-Type: application/pdf'' @ CRLF"
    by code_simp+
  note plain = C4_external_content [OF p, where k = 12 and textOnly = False
      and hdr = "Some [''Content-Type: application/pdf'',
                       ''X-Attachment-Stream-Url: <http://store/1>'']"
      and bd = None and cs = None and msg = None, unfolded Let_def,
      THEN conjunct2, THEN conjunct1, folded externalPart_def]
  note encoded = C4_external_content [OF q, where k = 12 and textOnly = False
      and hdr = "Some [''Content-Type: application/pdf'', ''X-Attachment-Stream-Encoded: Yes'',
                       ''X-Attachment-Stream-Url: <http://store/2>'']"
      and bd = None and cs = None and msg = None, unfolded Let_def,
      THEN conjunct2, THEN conjunct1, folded encodedPart_def]
  show ?thesis
    using plain encoded enc yes hb by (simp add: LengthLimiter_def orEmpty_def)
qed

section \<open>The estimate and the bytes of the stream\<close>

text \<open>
  C1. On every tree that satisfies the invariants of the data model, \<open>getSize\<close> must be
  the number of bytes that \<open>rebuild\<close> emits. \<open>preambleOnly\<close> is a multipart node with a
  boundary, an empty list of parts and a body of 8 bytes, with \<open>size = 8\<close>. It satisfies
  the invariants: it has a body, no part and no marker, and its boundary is there with
  its \<open>childNodes\<close>. \<open>rebuild\<close> emits 65 bytes and declares 67: \<open>getSize\<close> counts a line
  break between the body and the boundary line, where \<open>rebuild\<close> writes the body and the
  boundary line in one piece.
\<close>

theorem C1_preamble_without_parts:
  "invariants ext preambleOnly
   \<and> rebuild ext preambleOnly False
       = Inr (Stream (Ended (''Content-Type: multipart/mixed; boundary=b'' @ CRLF @ CRLF
                             @ ''preamble--b'' @ CRLF @ ''--b--'' @ CRLF))
                     (Num 67))
   \<and> length (''Content-Type: multipart/mixed; boundary=b'' @ CRLF @ CRLF
             @ ''preamble--b'' @ CRLF @ ''--b--'' @ CRLF) = 65
   \<and> childNodes preambleOnly = Some [] \<and> body preambleOnly = Some ''preamble''
   \<and> size_js preambleOnly = Some (int (length ''preamble''))
   \<and> boundary preambleOnly = Some ''b'' \<and> \<not> hasStreamUrl (parsedHeader preambleOnly)"
  by code_simp

text \<open>
  Everywhere else the estimate is exact. On a tree that satisfies the invariants and in
  which no node with a boundary has a body or the marker of external content, the walk
  of \<open>rebuild\<close> ends, and the declared length is the number of bytes it has written, for
  both values of \<open>textOnly\<close>. The proof walks the two functions side by side.
\<close>

lemma invariants_consistent:
  "invariants ext t \<Longrightarrow> plainMultiparts t \<Longrightarrow> consistent ext t"
proof (induction ext t rule: consistent.induct)
  case (1 ext hdr ph bd bnd cs msg sz)
  from "1.prems" obtain p where ph: "ph = Some p" by auto
  have kids: "case cs of None \<Rightarrow> True | Some l \<Rightarrow> list_all (consistent ext) l"
  proof (cases cs)
    case None
    then show ?thesis by simp
  next
    case (Some l)
    then show ?thesis
      using "1.IH" [OF ph Some] "1.prems" by (auto simp: list_all_iff)
  qed
  show ?case
    using "1.prems" ph kids
    by (auto simp: hasStreamUrl_def declaredSizeFetched_def split: option.splits if_splits)
qed

lemma agree_append: "agree ss rs \<Longrightarrow> agree (append_size d f ss) (append_res d f rs)"
  by (auto simp: agree_def append_size_def append_res_def)

lemma agree_finalize: "agree ss rs \<Longrightarrow> agree (finalize_size b ss) (finalize_res b rs)"
  by (simp add: finalize_size_def finalize_res_def agree_append)

lemma agree_header:
  "agree ss rs \<Longrightarrow> \<not> truthy (body n) \<Longrightarrow> agree (header_size tO n ss) (header_res tO n rs)"
  using agree_append [of ss rs "Some (headerBlock n)" False]
  by (auto simp: agree_def header_size_def header_res_def truthy_def orEmpty_def
      split: option.splits)

lemma agree_body:
  assumes "agree ss rs" "truthy (body n)" "sz = Some (int (length (orEmpty (body n))))"
    "\<not> truthy bnd"
  shows "agree (finalize_size bnd (content_size sz (header_size tO n ss)))
               (finalize_res bnd (header_res tO n rs))"
  using assms agree_append [of ss rs "Some (headerBlock n)" False]
  by (auto simp: agree_def header_size_def header_res_def finalize_size_def finalize_res_def
      content_size_def append_size_def append_res_def toNumber_def Let_def truthy_def orEmpty_def
      split: option.splits)

lemma agree_external:
  assumes "agree ss rs" "\<not> truthy (body n)"
    "fetch ext (stripAngle (orEmpty (streamUrl p))) = Some fetched"
    "int (length (pipeline ext (isYes (streamEncoded p)) k fetched)) = k"
  shows "\<exists>s4. external_res ext p (Some k) (header_res tO n rs) = Inr s4
              \<and> agree (content_size (Some k) (header_size tO n ss)) s4"
  using assms agree_header [OF assms(1,2), of tO]
  by (auto simp: external_res_def content_size_def Let_def agree_def append_size_def
      append_res_def toNumber_def)

lemma walks_agree:
  "consistent ext n \<Longrightarrow>
     \<forall>ss. agree ss rs \<longrightarrow>
       (\<exists>ss' rs'. walk_size tO n ss = Inr ss' \<and> walk_res ext tO n rs = Inr rs' \<and> agree ss' rs')"
  "list_all (consistent ext) l \<Longrightarrow>
     \<forall>ss. agree ss rs \<longrightarrow>
       (\<exists>ss' rs'. processChildNodes_size tO bnd l ss = Inr ss'
                 \<and> processChildNodes_res ext tO bnd l rs = Inr rs' \<and> agree ss' rs')"
proof (induction ext tO n rs and ext tO bnd l rs rule: walk_res_processChildNodes_res.induct)
  case (1 ext textOnly hdr ph bd bnd cs msg sz s)
  show ?case
  proof (intro allI impI)
    fix ss assume ag: "agree ss s"
    let ?n = "Node hdr ph bd bnd cs msg sz"
    from "1.prems" obtain p where ph: "ph = Some p" by (auto split: option.splits)
    show "\<exists>ss' rs'. walk_size textOnly ?n ss = Inr ss'
            \<and> walk_res ext textOnly ?n s = Inr rs' \<and> agree ss' rs'"
    proof (cases "truthy bnd")
      case True
      with "1.prems" ph have nb: "\<not> truthy bd" "\<not> truthy (streamUrl p)" by auto
      have h: "agree (header_size textOnly ?n ss) (header_res textOnly ?n s)"
        using ag nb by (simp add: agree_header)
      show ?thesis
      proof (cases cs)
        case None
        then show ?thesis using True ph nb h
          by (simp add: hasStreamUrl_def agree_append agree_finalize)
      next
        case (Some l)
        have "list_all (consistent ext) l" using "1.prems" ph Some by simp
        then show ?thesis
          using "1.IH"(1) [OF refl True Some] True ph nb h Some
          by (simp add: hasStreamUrl_def agree_append)
      qed
    next
      case False
      show ?thesis
      proof (cases "truthy (streamUrl p)")
        case True
        with "1.prems" ph False obtain k fetched where
          u: "\<not> truthy bd" "sz = Some k"
             "fetch ext (stripAngle (orEmpty (streamUrl p))) = Some fetched"
             "int (length (pipeline ext (isYes (streamEncoded p)) k fetched)) = k"
          by (auto split: option.splits)
        obtain s4 where s4: "external_res ext p (Some k) (header_res textOnly ?n s) = Inr s4"
            "agree (content_size (Some k) (header_size textOnly ?n ss)) s4"
          using agree_external [of ss s ?n ext p fetched k textOnly] ag u by auto
        show ?thesis using False True ph u s4
          by (simp add: hasStreamUrl_def agree_finalize)
      next
        case nourl: False
        show ?thesis
        proof (cases "truthy bd")
          case True
          with "1.prems" ph False nourl have
            b: "sz = Some (int (length (orEmpty bd)))" "cs = None \<or> cs = Some []"
            by auto
          have "agree (finalize_size bnd (content_size sz (header_size textOnly ?n ss)))
                      (finalize_res bnd (header_res textOnly ?n s))"
            using agree_body [of ss s ?n sz bnd textOnly] ag True b False by simp
          then show ?thesis using False nourl True ph b
            by (auto simp: hasStreamUrl_def)
        next
          case nobody: False
          have h: "agree (header_size textOnly ?n ss) (header_res textOnly ?n s)"
            using ag nobody by (simp add: agree_header)
          show ?thesis
          proof (cases cs)
            case None
            then show ?thesis using False nourl nobody ph h
              by (simp add: hasStreamUrl_def agree_finalize)
          next
            case (Some l)
            have "list_all (consistent ext) l" using "1.prems" ph Some by simp
            then show ?thesis
              using "1.IH"(2) [OF refl False ph nourl Some] False nourl nobody ph h Some
              by (simp add: hasStreamUrl_def)
          qed
        qed
      qed
    qed
  qed
next
  case (2 ext textOnly bnd s)
  then show ?case by (simp add: agree_finalize)
next
  case (3 ext textOnly bnd c rest s)
  show ?case
  proof (intro allI impI)
    fix ss assume ag: "agree ss s"
    from "3.prems" have c: "consistent ext c" and r: "list_all (consistent ext) rest"
      by simp_all
    from "3.IH"(1) [OF c] ag obtain ss' rs' where
      w: "walk_size textOnly c ss = Inr ss'" "walk_res ext textOnly c s = Inr rs'"
         "agree ss' rs'"
      by blast
    let ?a = "\<lambda>x. if rest \<noteq> [] then append_size (Some (''--'' @ toStr bnd)) False x else x"
    let ?b = "\<lambda>x. if rest \<noteq> [] then append_res (Some (''--'' @ toStr bnd)) False x else x"
    have "agree (?a ss') (?b rs')" using w(3) by (simp add: agree_append)
    with "3.IH"(2) [OF w(2) r] obtain ss'' rs'' where
      "processChildNodes_size textOnly bnd rest (?a ss') = Inr ss''"
      "processChildNodes_res ext textOnly bnd rest (?b rs') = Inr rs''" "agree ss'' rs''"
      by blast
    then show "\<exists>ss' rs'. processChildNodes_size textOnly bnd (c # rest) ss = Inr ss'
                 \<and> processChildNodes_res ext textOnly bnd (c # rest) s = Inr rs'
                 \<and> agree ss' rs'"
      using w by simp
  qed
qed

lemma consistent_rebuild:
  assumes "consistent ext t"
  shows "\<exists>bytes. rebuild ext t textOnly = Inr (Stream (Ended bytes) (Num (int (length bytes))))"
proof -
  have "agree \<lparr>first = True, root = True, size_acc = Num 0\<rparr>
              \<lparr>first = True, root = True, res = [], remainder = []\<rparr>"
    by (simp add: agree_def)
  with walks_agree(1) [OF assms] obtain ss' rs' where
    "walk_size textOnly t \<lparr>first = True, root = True, size_acc = Num 0\<rparr> = Inr ss'"
    "walk_res ext textOnly t \<lparr>first = True, root = True, res = [], remainder = []\<rparr> = Inr rs'"
    "agree ss' rs'"
    by blast
  then show ?thesis
    by (simp add: rebuild_def getSize_def rebuild_stream_def agree_def)
qed

theorem getSize_is_length_of_rebuild:
  assumes "invariants ext t" and "plainMultiparts t"
  shows "\<exists>bytes. rebuild ext t textOnly = Inr (Stream (Ended bytes) (Num (int (length bytes))))"
  using assms by (simp add: invariants_consistent consistent_rebuild)

theorem getSize_is_length_of_rebuild_witness:
  "invariants remoteStore twoPartTree \<and> plainMultiparts twoPartTree
   \<and> (\<exists>bytes. rebuild remoteStore twoPartTree False
               = Inr (Stream (Ended bytes) (Num (int (length bytes)))))
   \<and> getSize twoPartTree False = Inr (Num 132)"
proof -
  have c: "invariants remoteStore twoPartTree" "plainMultiparts twoPartTree"
    by code_simp+
  have v: "getSize twoPartTree False = Inr (Num 132)"
    by code_simp
  show ?thesis
    using c v getSize_is_length_of_rebuild [OF c, of False] by simp
qed

end
